theory Spec2Isabelle
  imports Main "HOL-Library.Word" "HOL-Library.Signed_Division" "HOL-Library.Sublist"
begin

section \<open>Go values\<close>

text \<open>
  \<^verbatim>\<open>type Pid int32\<close> is a 32-bit word read as two's complement (\<open>sint\<close>). Go's \<^verbatim>\<open>int\<close>
  (the result of \<^verbatim>\<open>os.Getpid\<close> and of \<^verbatim>\<open>strconv.Atoi\<close>) is taken at its width on a 64-bit
  platform; the conversion \<^verbatim>\<open>Pid(x)\<close> keeps the low 32 bits (\<open>ucast\<close>). A \<^verbatim>\<open>time.Time\<close> is
  the instant it denotes, in nanoseconds since the Unix epoch. File contents are byte
  strings.
\<close>

type_synonym Pid = "32 word"
type_synonym go_int = "64 word"
type_synonym int64 = "64 word"
type_synonym Time = int

definition Unix :: "int \<Rightarrow> int \<Rightarrow> Time" where
  "Unix sec nsec = sec * 1000000000 + nsec"

definition Before :: "Time \<Rightarrow> Time \<Rightarrow> bool" where
  "Before t u = (t < u)"

subsection \<open>Errors\<close>

text \<open>
  A Go \<^verbatim>\<open>error\<close> is an interface value that may be \<^verbatim>\<open>nil\<close>: \<open>None\<close> is \<^verbatim>\<open>nil\<close>. The
  constructors are the error values that reach this package: errno values, the sentinel
  errors of \<^verbatim>\<open>os\<close> and \<^verbatim>\<open>strconv\<close>, \<^verbatim>\<open>os.PathError\<close>, \<^verbatim>\<open>strconv.NumError\<close>, the string
  errors of \<^verbatim>\<open>fmt.Errorf\<close>, and the wrapper that \<^verbatim>\<open>errors.Wrap\<close> of \<^verbatim>\<open>github.com/pkg/errors\<close>
  builds around a cause.
\<close>

datatype errno = ENOENT | EEXIST | EACCES | EIO

datatype error =
    Errno errno
  | ErrNotExist
  | ErrExist
  | ErrSyntax
  | ErrRange
  | PathError string string error
  | NumError string string error
  | errorString string
  | withMessage error string

type_synonym err = "error option"

text \<open>\<^verbatim>\<open>os.IsNotExist\<close>: looks through a \<^verbatim>\<open>PathError\<close> only, never through a wrapper.\<close>

fun underlyingError :: "error \<Rightarrow> error" where
  "underlyingError (PathError opn name e) = e"
| "underlyingError e = e"

definition IsNotExist :: "err \<Rightarrow> bool" where
  "IsNotExist e = (case e of None \<Rightarrow> False
     | Some x \<Rightarrow> underlyingError x = Errno ENOENT \<or> underlyingError x = ErrNotExist)"

text \<open>\<^verbatim>\<open>errors.Wrap\<close> and \<^verbatim>\<open>errors.Wrapf\<close>: \<^verbatim>\<open>nil\<close> stays \<^verbatim>\<open>nil\<close>.\<close>

definition Wrap :: "err \<Rightarrow> string \<Rightarrow> err" where
  "Wrap e msg = (case e of None \<Rightarrow> None | Some x \<Rightarrow> Some (withMessage x msg))"

text \<open>
  \<^verbatim>\<open>errors.Cause\<close>: follows \<^verbatim>\<open>Cause()\<close> while the error has one, and returns the first error
  that has none. An error that is no wrapper is returned as it is.
\<close>

fun cause_of :: "error \<Rightarrow> error" where
  "cause_of (withMessage c msg) = cause_of c"
| "cause_of e = e"

definition Cause :: "err \<Rightarrow> err" where
  "Cause e = map_option cause_of e"

text \<open>
  \<^verbatim>\<open>isWrappedNotExist\<close> (mutex.go): a loop that ends only by \<^verbatim>\<open>return true\<close> or when the
  error becomes \<^verbatim>\<open>nil\<close>. \<open>None\<close> is the loop that never ends.
\<close>

partial_function (option) isWrappedNotExist :: "err \<Rightarrow> bool option" where
  "isWrappedNotExist e =
     (if e \<noteq> None
      then (if IsNotExist e then Some True else isWrappedNotExist (Cause e))
      else Some False)"

subsection \<open>Decimal text\<close>

text \<open>The verb \<^verbatim>\<open>%d\<close> of \<^verbatim>\<open>fmt\<close> on a signed integer.\<close>

fun digits10 :: "nat \<Rightarrow> string" where
  "digits10 n = (if n < 10 then [''0123456789'' ! n]
                 else digits10 (n div 10) @ [''0123456789'' ! (n mod 10)])"

declare digits10.simps [simp del]

definition fmt_d :: "int \<Rightarrow> string" where
  "fmt_d i = (if i < 0 then CHR ''-'' # digits10 (nat (- i)) else digits10 (nat i))"

text \<open>
  \<^verbatim>\<open>strconv.Atoi\<close> with a 64-bit \<^verbatim>\<open>int\<close>: an optional sign, then \<^verbatim>\<open>ParseUint\<close>'s loop over the
  bytes (base 10, 64 bits), which reports a byte that is no digit as \<^verbatim>\<open>ErrSyntax\<close> and an
  overflow of the unsigned accumulator as \<^verbatim>\<open>ErrRange\<close> as soon as it meets either, then
  \<^verbatim>\<open>ParseInt\<close>'s check of the signed range. The accumulator is an unbounded \<open>nat\<close> with
  the two overflow tests of the loop written out.
\<close>

definition isDigit :: "char \<Rightarrow> bool" where
  "isDigit c = (48 \<le> (of_char c :: nat) \<and> (of_char c :: nat) \<le> 57)"

definition maxUint64 :: nat where
  "maxUint64 = 18446744073709551615"

fun ParseUint_loop :: "string \<Rightarrow> nat \<Rightarrow> nat \<times> err" where
  "ParseUint_loop [] n = (n, None)"
| "ParseUint_loop (c # cs) n =
     (if \<not> isDigit c then (0, Some ErrSyntax)
      else if n \<ge> maxUint64 div 10 + 1 then (maxUint64, Some ErrRange)
      else if n * 10 + (of_char c - 48) > maxUint64 then (maxUint64, Some ErrRange)
      else ParseUint_loop cs (n * 10 + (of_char c - 48)))"

definition ParseUint :: "string \<Rightarrow> nat \<times> err" where
  "ParseUint s = (if s = [] then (0, Some ErrSyntax) else ParseUint_loop s 0)"

definition ParseInt :: "string \<Rightarrow> int64 \<times> err" where
  "ParseInt s0 =
     (if s0 = [] then (0, Some ErrSyntax)
      else
        let neg = (hd s0 = CHR ''-'');
            s = (if hd s0 = CHR ''+'' \<or> hd s0 = CHR ''-'' then tl s0 else s0)
        in case ParseUint s of (un, e) \<Rightarrow>
          if e \<noteq> None \<and> e \<noteq> Some ErrRange then (0, e)
          else if \<not> neg \<and> un \<ge> 2 ^ 63 then (word_of_nat (2 ^ 63 - 1), Some ErrRange)
          else if neg \<and> un > 2 ^ 63 then (- word_of_nat (2 ^ 63), Some ErrRange)
          else (if neg then - word_of_nat un else word_of_nat un, None))"

definition Atoi :: "string \<Rightarrow> go_int \<times> err" where
  "Atoi s = (case ParseInt s of (i64, e) \<Rightarrow>
     (i64, case e of None \<Rightarrow> None | Some k \<Rightarrow> Some (NumError ''Atoi'' s k)))"

subsection \<open>Trimming white space\<close>

text \<open>
  \<^verbatim>\<open>bytes.TrimSpace\<close> removes the leading and trailing runes for which \<^verbatim>\<open>unicode.IsSpace\<close>
  holds. Each such rune has one valid UTF-8 encoding, listed here: the six ASCII ones,
  U+0085, U+00A0, U+1680, U+2000 to U+200A, U+2028, U+2029, U+202F, U+205F, U+3000.
\<close>

definition space_runes :: "string list" where
  "space_runes =
     [[CHR 0x09], [CHR 0x0A], [CHR 0x0B], [CHR 0x0C], [CHR 0x0D], [CHR 0x20],
      [CHR 0xC2, CHR 0x85], [CHR 0xC2, CHR 0xA0],
      [CHR 0xE1, CHR 0x9A, CHR 0x80],
      [CHR 0xE2, CHR 0x80, CHR 0x80], [CHR 0xE2, CHR 0x80, CHR 0x81],
      [CHR 0xE2, CHR 0x80, CHR 0x82], [CHR 0xE2, CHR 0x80, CHR 0x83],
      [CHR 0xE2, CHR 0x80, CHR 0x84], [CHR 0xE2, CHR 0x80, CHR 0x85],
      [CHR 0xE2, CHR 0x80, CHR 0x86], [CHR 0xE2, CHR 0x80, CHR 0x87],
      [CHR 0xE2, CHR 0x80, CHR 0x88], [CHR 0xE2, CHR 0x80, CHR 0x89],
      [CHR 0xE2, CHR 0x80, CHR 0x8A],
      [CHR 0xE2, CHR 0x80, CHR 0xA8], [CHR 0xE2, CHR 0x80, CHR 0xA9],
      [CHR 0xE2, CHR 0x80, CHR 0xAF], [CHR 0xE2, CHR 0x81, CHR 0x9F],
      [CHR 0xE3, CHR 0x80, CHR 0x80]]"

text \<open>The width in bytes of the white-space rune at the front of \<open>s\<close>, 0 when there is none.\<close>

definition space_width :: "string list \<Rightarrow> string \<Rightarrow> nat" where
  "space_width runes s =
     (case find (\<lambda>r. prefix r s) runes of None \<Rightarrow> 0 | Some r \<Rightarrow> length r)"

function trim_front :: "string list \<Rightarrow> string \<Rightarrow> string" where
  "trim_front runes s =
     (if space_width runes s = 0 then s
      else trim_front runes (drop (space_width runes s) s))"
  by pat_completeness auto

termination
proof (relation "measure (\<lambda>(runes, s). length s)")
  show "wf (measure (\<lambda>(runes, s). length s))" by simp
next
  fix runes :: "string list" and s :: string
  assume w: "space_width runes s \<noteq> 0"
  then obtain r where f: "find (\<lambda>r. prefix r s) runes = Some r" and l: "length r \<noteq> 0"
    by (auto simp: space_width_def split: option.splits)
  from f have "prefix r s" by (auto simp: find_Some_iff)
  with l have "s \<noteq> []" by auto
  with w show "((runes, drop (space_width runes s) s), (runes, s))
                 \<in> measure (\<lambda>(runes, s). length s)"
    by simp
qed

declare trim_front.simps [simp del]

definition TrimSpace :: "string \<Rightarrow> string" where
  "TrimSpace s = rev (trim_front (map rev space_runes) (rev (trim_front space_runes s)))"

section \<open>The operating system\<close>

text \<open>
  What the package reads and writes outside itself: the files (content and modification
  time by name), the id of the calling process, the clock that stamps a file when it is
  committed, and the process table behind \<^verbatim>\<open>process.NewProcess\<close> and \<^verbatim>\<open>CreateTime\<close> of
  gopsutil. Each system call that can fail for a reason outside the model has a fault
  field: \<open>None\<close> lets the call go through, \<open>Some e\<close> makes it fail with \<open>e\<close>.
  Directories are not represented: \<^verbatim>\<open>os.MkdirAll\<close> either fails or leaves the files as
  they are.
\<close>

datatype proc_info = Process (CreateTime: "error + int64")

record world =
  files :: "string \<rightharpoonup> string \<times> Time"
  self_pid :: go_int
  now :: Time
  processes :: "32 word \<Rightarrow> error + proc_info"
  read_fault :: "error option"
  mkdirall_fault :: "error option"
  create_fault :: "error option"
  fprintf_fault :: "error option"
  close_fault :: "error option"
  remove_fault :: "error option"

definition Getpid :: "world \<Rightarrow> go_int" where
  "Getpid w = self_pid w"

definition NewProcess :: "world \<Rightarrow> 32 word \<Rightarrow> error + proc_info" where
  "NewProcess w pid = processes w pid"

text \<open>\<^verbatim>\<open>ioutil.ReadFile\<close>: a missing file is a \<^verbatim>\<open>PathError\<close> around \<^verbatim>\<open>ENOENT\<close>.\<close>

definition ReadFile :: "world \<Rightarrow> string \<Rightarrow> string \<times> err" where
  "ReadFile w name =
     (case read_fault w of
        Some e \<Rightarrow> ([], Some (PathError ''open'' name e))
      | None \<Rightarrow>
          (case files w name of
             None \<Rightarrow> ([], Some (PathError ''open'' name (Errno ENOENT)))
           | Some (d, mtime) \<Rightarrow> (d, None)))"

text \<open>\<^verbatim>\<open>os.Remove\<close>: on failure the file stays.\<close>

definition Remove :: "world \<Rightarrow> string \<Rightarrow> err \<times> world" where
  "Remove w name =
     (case remove_fault w of
        Some e \<Rightarrow> (Some (PathError ''remove'' name e), w)
      | None \<Rightarrow>
          (case files w name of
             None \<Rightarrow> (Some (PathError ''remove'' name (Errno ENOENT)), w)
           | Some f \<Rightarrow> (None, w\<lparr>files := (files w)(name := None)\<rparr>)))"

section \<open>pidfile.go\<close>

record pidfile =
  path :: string

definition New :: "string \<Rightarrow> pidfile \<times> err" where
  "New p = (\<lparr>path = p\<rparr>, None)"

definition Path :: "pidfile \<Rightarrow> string" where
  "Path p = path p"

text \<open>
  \<^verbatim>\<open>Write\<close>: the parent directories, the atomic file, \<^verbatim>\<open>fmt.Fprintf(f, "%d", os.Getpid())\<close>,
  and \<^verbatim>\<open>Close\<close>, which puts the new content in place in one step; a failure at any stage
  leaves the files as they were (the deferred \<^verbatim>\<open>Abort\<close>). The local \<open>pid\<close> is assigned as
  in the source and, as in the source, not read again.
\<close>

definition Write :: "world \<Rightarrow> pidfile \<Rightarrow> Pid \<Rightarrow> err \<times> world" where
  "Write w p pid0 =
     (let pid = (if pid0 = 0 then (ucast (Getpid w) :: Pid) else pid0) in
      case mkdirall_fault w of
        Some e \<Rightarrow>
          (Wrap (Some e) (''failed to create parent directories of pidfile: '' @ path p), w)
      | None \<Rightarrow>
      (case create_fault w of
        Some e \<Rightarrow> (Wrap (Some e) (''error opening pidfile: '' @ path p), w)
      | None \<Rightarrow>
      (case fprintf_fault w of
        Some e \<Rightarrow> (Wrap (Some e) (''failed to write pid to pidfile: '' @ path p), w)
      | None \<Rightarrow>
      (case close_fault w of
        Some e \<Rightarrow> (Wrap (Some e) (''failed to close pidfile: '' @ path p), w)
      | None \<Rightarrow>
          (None, w\<lparr>files := (files w)(path p \<mapsto> (fmt_d (sint (Getpid w)), now w))\<rparr>)))))"

definition Read :: "world \<Rightarrow> pidfile \<Rightarrow> Pid \<times> err" where
  "Read w p =
     (case ReadFile w (path p) of (d, e) \<Rightarrow>
        if e \<noteq> None then (0, Wrap e (''failed to read pidfile: '' @ path p))
        else (case Atoi (TrimSpace d) of (pid, e) \<Rightarrow>
          if e \<noteq> None then (0, Wrap e (''failed to parse pid from pidfile: '' @ path p))
          else (ucast pid, None)))"

section \<open>mutex.go\<close>

text \<open>The zero \<^verbatim>\<open>time.Time\<close>: midnight of 1 January of year 1.\<close>

definition zeroTime :: Time where
  "zeroTime = Unix (- 62135596800) 0"

text \<open>
  Modelled from the spec: the read that \<^verbatim>\<open>Holder\<close> and \<^verbatim>\<open>Unlock\<close> call with three results,
  \<^verbatim>\<open>lockPid, lockMtime, err := p.Read()\<close>, is not among the sources, where \<^verbatim>\<open>Read\<close> has two.
  The spec has the coordinator's read return the pid, the file's last-modification time
  and the error. It is \<open>Read\<close> above with the modification time of the file added; on an
  error the time is the zero \<^verbatim>\<open>time.Time\<close>, midnight of 1 January of year 1.
\<close>

definition ReadWithMtime :: "world \<Rightarrow> pidfile \<Rightarrow> Pid \<times> Time \<times> err" where
  "ReadWithMtime w p =
     (case Read w p of (pid, e) \<Rightarrow>
        if e \<noteq> None then (0, zeroTime, e)
        else (case files w (path p) of
                None \<Rightarrow> (0, zeroTime, Some (PathError ''stat'' (path p) (Errno ENOENT)))
              | Some (d, mtime) \<Rightarrow> (pid, mtime, None)))"

definition lockValid :: "world \<Rightarrow> Pid \<Rightarrow> Time \<Rightarrow> bool \<times> err" where
  "lockValid w pid mtime =
     (case NewProcess w pid of
        Inl e \<Rightarrow>
          (False, Wrap (if IsNotExist (Some e) then None else Some e)
                    ''failed to get process information'')
      | Inr info \<Rightarrow>
          (case CreateTime info of
             Inl e \<Rightarrow>
               (False, Wrap (if IsNotExist (Some e) then None else Some e)
                         ''failed to get process creation time'')
           | Inr procCreateUnixMs \<Rightarrow>
               (let procCreateTime = Unix (sint procCreateUnixMs sdiv 1000) 0
                in (Before procCreateTime mtime, None))))"

text \<open>
  \<open>Holder\<close>, \<open>Lock\<close> and \<open>Unlock\<close> call \<open>isWrappedNotExist\<close>, so each of them may not
  return: \<open>None\<close>. When they return, it is with the results of the Go function and, for
  the two that change the files, the world they leave.
\<close>

definition Holder :: "world \<Rightarrow> pidfile \<Rightarrow> (Pid \<times> err) option" where
  "Holder w p =
     (case ReadWithMtime w p of (lockPid, lockMtime, e) \<Rightarrow>
        if e \<noteq> None then
          (case isWrappedNotExist e of
             None \<Rightarrow> None
           | Some b \<Rightarrow> if b then Some (0, None)
                       else Some (0, Wrap e ''failed to read pidfile''))
        else
          (case lockValid w lockPid lockMtime of (ok, e) \<Rightarrow>
             if e \<noteq> None then Some (0, Wrap e ''failed to validate lock'')
             else if \<not> ok then Some (0, None)
             else Some (lockPid, None)))"

definition Lock :: "world \<Rightarrow> pidfile \<Rightarrow> Pid \<Rightarrow> (err \<times> world) option" where
  "Lock w p pid0 =
     (let pid = (if pid0 = 0 then (ucast (Getpid w) :: Pid) else pid0) in
      case Holder w p of
        None \<Rightarrow> None
      | Some (lockPid, e) \<Rightarrow>
          if e \<noteq> None then Some (Wrap e ''failed to examine existing lock'', w)
          else if lockPid \<noteq> 0 then Some (Some ErrExist, w)
          else (case Write w p pid of (e, w') \<Rightarrow>
                  if e \<noteq> None then Some (Wrap e ''failed to write pidfile'', w')
                  else Some (None, w')))"

definition Unlock :: "world \<Rightarrow> pidfile \<Rightarrow> Pid \<Rightarrow> (err \<times> world) option" where
  "Unlock w p pid0 =
     (let pid = (if pid0 = 0 then (ucast (Getpid w) :: Pid) else pid0) in
      case ReadWithMtime w p of (lockPid, lockMtime, e) \<Rightarrow>
        if e \<noteq> None then
          (case isWrappedNotExist e of
             None \<Rightarrow> None
           | Some b \<Rightarrow> if b then Some (Some ErrNotExist, w)
                       else Some (Wrap e ''failed to read pid'', w))
        else
          (case lockValid w lockPid lockMtime of (ok, e) \<Rightarrow>
             if e \<noteq> None then Some (Wrap e ''failed to validate lock'', w)
             else if \<not> ok then Some (Some ErrNotExist, w)
             else if lockPid \<noteq> pid then
               Some (Some (errorString (''pidfile is held by '' @ fmt_d (sint lockPid)
                             @ ''; lock cannot be released by '' @ fmt_d (sint pid))), w)
             else (case Remove w (path p) of (e, w') \<Rightarrow>
                     if e \<noteq> None then Some (Wrap e ''failed to remove pidfile'', w')
                     else Some (None, w'))))"

section \<open>Example worlds\<close>

text \<open>
  A process table with two processes: the caller, pid 7, created 1000.5 s after the
  epoch, and pid 1, created 1 s after it. Every other pid is not running: \<^verbatim>\<open>NewProcess\<close> fails
  to open its directory under \<^verbatim>\<open>/proc\<close>. The clock reads 2000 s. No system call is made to
  fail.
\<close>

definition example_path :: string where
  "example_path = ''/run/app.pid''"

definition example_pidfile :: pidfile where
  "example_pidfile = \<lparr>path = example_path\<rparr>"

definition example_processes :: "32 word \<Rightarrow> error + proc_info" where
  "example_processes pid =
     (if pid = 7 then Inr (Process (Inr 1000500))
      else if pid = 1 then Inr (Process (Inr 1000))
      else Inl (PathError ''open'' ''/proc'' (Errno ENOENT)))"

definition example_world :: "(string \<times> Time) option \<Rightarrow> world" where
  "example_world f =
     \<lparr>files = (\<lambda>name. if name = example_path then f else None),
      self_pid = 7, now = 2000000000000,
      processes = example_processes,
      read_fault = None, mkdirall_fault = None, create_fault = None,
      fprintf_fault = None, close_fault = None, remove_fault = None\<rparr>"

section \<open>Words of the specification\<close>

text \<open>
  The spec's "signed decimal integer": an optional sign, then one or more decimal digits,
  and the integer such a text denotes. Its classes of errors: "not found" is an error
  whose cause \<^verbatim>\<open>os.IsNotExist\<close> accepts, "malformed content" one whose cause is a
  \<^verbatim>\<open>strconv.NumError\<close>.
\<close>

definition digit_step :: "nat \<Rightarrow> char \<Rightarrow> nat" where
  "digit_step n c = n * 10 + (of_char c - 48)"

definition digits_value :: "string \<Rightarrow> nat" where
  "digits_value cs = foldl digit_step 0 cs"

definition is_decimal :: "string \<Rightarrow> bool" where
  "is_decimal s =
     (case s of
        [] \<Rightarrow> False
      | c # cs \<Rightarrow> if c = CHR ''+'' \<or> c = CHR ''-'' then cs \<noteq> [] \<and> list_all isDigit cs
                  else list_all isDigit (c # cs))"

definition decimal_value :: "string \<Rightarrow> int" where
  "decimal_value s =
     (case s of
        [] \<Rightarrow> 0
      | c # cs \<Rightarrow> if c = CHR ''-'' then - int (digits_value cs)
                  else if c = CHR ''+'' then int (digits_value cs)
                  else int (digits_value (c # cs)))"

definition NotFound_class :: "err \<Rightarrow> bool" where
  "NotFound_class e = IsNotExist (Cause e)"

definition Malformed_class :: "err \<Rightarrow> bool" where
  "Malformed_class e =
     (case Cause e of Some (NumError fn num k) \<Rightarrow> True | _ \<Rightarrow> False)"

section \<open>The loop of isWrappedNotExist\<close>

lemma isWrappedNotExist_nil: "isWrappedNotExist None = Some False"
  by (simp add: isWrappedNotExist.simps)

lemma cause_of_idem: "cause_of (cause_of e) = cause_of e"
  by (induction e) simp_all

lemma Cause_idem: "Cause (Cause e) = Cause e"
  by (cases e) (simp_all add: Cause_def cause_of_idem)

lemma isWrappedNotExist_returns:
  assumes ret: "isWrappedNotExist e = Some y"
  shows "(e = None \<and> \<not> y) \<or> (e \<noteq> None \<and> (IsNotExist e \<or> IsNotExist (Cause e)) \<and> y)"
proof -
  let ?P = "\<lambda>e y. (e = None \<and> \<not> y) \<or>
                    (e \<noteq> None \<and> (IsNotExist e \<or> IsNotExist (Cause e)) \<and> y)"
  have "?P e y"
  proof (rule isWrappedNotExist.raw_induct [where P = "?P", OF _ ret])
    fix f :: "err \<Rightarrow> bool option" and e y
    assume IH: "\<And>e y. f e = Some y \<Longrightarrow> ?P e y"
      and body: "(if e \<noteq> None then if IsNotExist e then Some True else f (Cause e)
                  else Some False) = Some y"
    show "?P e y"
    proof (cases "e = None")
      case True
      with body show ?thesis by auto
    next
      case ne: False
      show ?thesis
      proof (cases "IsNotExist e")
        case True
        with ne body show ?thesis by auto
      next
        case False
        with ne body have "f (Cause e) = Some y" by simp
        from IH [OF this] ne
        have "(IsNotExist (Cause e) \<or> IsNotExist (Cause (Cause e))) \<and> y"
          by (auto simp: Cause_def)
        then show ?thesis using ne by (simp add: Cause_idem)
      qed
    qed
  qed
  then show ?thesis .
qed

lemma isWrappedNotExist_eq:
  "isWrappedNotExist e =
     (if e = None then Some False
      else if IsNotExist e \<or> IsNotExist (Cause e) then Some True else None)"
proof (cases "e = None")
  case True
  then show ?thesis by (simp add: isWrappedNotExist_nil)
next
  case ne: False
  then have cne: "Cause e \<noteq> None" by (auto simp: Cause_def)
  show ?thesis
  proof (cases "IsNotExist e")
    case True
    then show ?thesis using ne by (subst isWrappedNotExist.simps) simp
  next
    case n1: False
    show ?thesis
    proof (cases "IsNotExist (Cause e)")
      case True
      have "isWrappedNotExist (Cause e) = Some True"
        using True cne by (subst isWrappedNotExist.simps) simp
      then have "isWrappedNotExist e = Some True"
        using n1 ne by (subst isWrappedNotExist.simps) simp
      with True ne show ?thesis by simp
    next
      case False
      have "isWrappedNotExist e = None"
      proof (cases "isWrappedNotExist e")
        case None then show ?thesis .
      next
        case (Some y)
        from isWrappedNotExist_returns[OF this] False n1 ne show ?thesis by simp
      qed
      with False n1 ne show ?thesis by simp
    qed
  qed
qed

section \<open>Evaluating the example worlds\<close>

lemmas eval_text =
  TrimSpace_def trim_front.simps space_width_def space_runes_def
  Atoi_def ParseInt_def ParseUint_def isDigit_def maxUint64_def
  fmt_d_def digits10.simps

lemmas eval_world =
  example_world_def example_pidfile_def example_path_def example_processes_def
  Getpid_def NewProcess_def ReadFile_def Remove_def

lemmas eval_errors =
  Wrap_def IsNotExist_def Cause_def isWrappedNotExist_eq

section \<open>Reading the pidfile\<close>

lemma Write_ignores_pid: "Write w p pid = Write w p 0"
  by (simp add: Write_def Let_def)

lemma Read_absent:
  "read_fault w = None \<Longrightarrow> files w (path p) = None \<Longrightarrow>
     Read w p = (0, Some (withMessage (PathError ''open'' (path p) (Errno ENOENT))
                            (''failed to read pidfile: '' @ path p)))"
  by (simp add: Read_def ReadFile_def Wrap_def)

lemma ReadWithMtime_absent:
  "read_fault w = None \<Longrightarrow> files w (path p) = None \<Longrightarrow>
     ReadWithMtime w p =
       (0, zeroTime, Some (withMessage (PathError ''open'' (path p) (Errno ENOENT))
                             (''failed to read pidfile: '' @ path p)))"
  by (simp add: ReadWithMtime_def Read_absent)

lemma ReadWithMtime_ok_file:
  "ReadWithMtime w p = (lockPid, lockMtime, None) \<Longrightarrow>
     \<exists>d. files w (path p) = Some (d, lockMtime)"
  by (auto simp: ReadWithMtime_def split: prod.splits if_splits option.splits)

lemma Holder_read_ok:
  "ReadWithMtime w p = (lockPid, lockMtime, None) \<Longrightarrow>
     Holder w p =
       (case lockValid w lockPid lockMtime of (ok, e) \<Rightarrow>
          if e \<noteq> None then Some (0, Wrap e ''failed to validate lock'')
          else if \<not> ok then Some (0, None)
          else Some (lockPid, None))"
  by (simp add: Holder_def)

lemma Holder_absent:
  "read_fault w = None \<Longrightarrow> files w (path p) = None \<Longrightarrow> Holder w p = Some (0, None)"
  by (simp add: Holder_def ReadWithMtime_absent isWrappedNotExist_eq IsNotExist_def Cause_def)

lemma Holder_example_7:
  "Holder (example_world (Some (''7'', 1500000000000))) example_pidfile = Some (7, None)"
  by (simp add: Holder_def ReadWithMtime_def Read_def lockValid_def Unix_def Before_def
        signed_divide_int_def eval_world eval_text eval_errors)

lemma ReadWithMtime_example_7:
  "ReadWithMtime (example_world (Some (''7'', t))) example_pidfile = (7, t, None)"
  by (simp add: ReadWithMtime_def Read_def eval_world eval_text eval_errors)

lemma ReadWithMtime_example_1:
  "ReadWithMtime (example_world (Some (''1'', t))) example_pidfile = (1, t, None)"
  by (simp add: ReadWithMtime_def Read_def eval_world eval_text eval_errors)

lemma lockValid_example_7:
  "lockValid (example_world f) 7 t = (1000000000000 < t, None)"
  by (simp add: lockValid_def Unix_def Before_def signed_divide_int_def eval_world)

lemma lockValid_example_1:
  "lockValid (example_world f) 1 t = (1000000000 < t, None)"
  by (simp add: lockValid_def Unix_def Before_def signed_divide_int_def eval_world)

section \<open>Holder\<close>

text \<open>
  What \<open>Holder\<close> returns once the pidfile has been read: 0 when the recorded process is
  not running, the recorded pid when the process's creation time in whole seconds is
  before the mtime, 0 when it is not, and the wrapped error when the process table fails
  otherwise. A read that fails with an error that is not a not-exist error, and whose
  cause is none either, makes \<open>Holder\<close> and \<open>Unlock\<close> loop.
\<close>

lemma Holder_read_failure:
  assumes "ReadWithMtime w p = (pid, t, Some e)"
    and "\<not> IsNotExist (Some e)" and "\<not> IsNotExist (Some (cause_of e))"
  shows "Holder w p = None"
  using assms by (simp add: Holder_def isWrappedNotExist_eq Cause_def)

lemma Unlock_read_failure:
  assumes "ReadWithMtime w p = (lockPid, t, Some e)"
    and "\<not> IsNotExist (Some e)" and "\<not> IsNotExist (Some (cause_of e))"
  shows "Unlock w p pid = None"
  using assms by (simp add: Unlock_def Let_def isWrappedNotExist_eq Cause_def)

lemma Holder_result:
  assumes "ReadWithMtime w p = (lockPid, lockMtime, None)"
  shows "Holder w p =
     (case NewProcess w lockPid of
        Inl e \<Rightarrow>
          if IsNotExist (Some e) then Some (0, None)
          else Some (0, Some (withMessage (withMessage e ''failed to get process information'')
                                ''failed to validate lock''))
      | Inr info \<Rightarrow>
          (case CreateTime info of
             Inl e \<Rightarrow>
               if IsNotExist (Some e) then Some (0, None)
               else Some (0, Some (withMessage
                                     (withMessage e ''failed to get process creation time'')
                                     ''failed to validate lock''))
           | Inr ms \<Rightarrow>
               if Unix (sint ms sdiv 1000) 0 < lockMtime then Some (lockPid, None)
               else Some (0, None)))"
  by (simp add: Holder_read_ok [OF assms] lockValid_def Wrap_def Before_def
        split: sum.splits)

lemma Holder_created_after_mtime:
  "Holder (example_world (Some (''7'', 1000300000000))) example_pidfile = Some (7, None)"
  unfolding Holder_result [OF ReadWithMtime_example_7]
  by (simp add: Unix_def signed_divide_int_def eval_world)


text \<open>
  C3, at a pidfile whose content is no number. \<open>Read\<close> fails with a wrapped
  \<^verbatim>\<open>strconv.NumError\<close>; neither that error nor its cause is accepted by \<^verbatim>\<open>os.IsNotExist\<close>,
  and \<^verbatim>\<open>errors.Cause\<close> of the cause is the cause again, so the loop of \<open>isWrappedNotExist\<close>
  never ends and \<open>Holder\<close> does not return: the read failure is not surfaced as an error.
\<close>

theorem Holder_malformed_never_returns:
  "Holder (example_world (Some (''abc'', 1500000000000))) example_pidfile = None"
  by (simp add: Holder_def ReadWithMtime_def Read_def eval_world eval_text eval_errors)

section \<open>Write and Lock\<close>

text \<open>
  C1, at pid 5 written by the process 7 into a new pidfile. \<open>Write\<close> succeeds, and
  \<open>Read\<close> then returns 7, the id of the writing process, not the 5 that was passed: the
  text put in the file is \<^verbatim>\<open>os.Getpid()\<close>, whatever the argument.
\<close>

theorem Write_other_pid_Read:
  "fst (Write (example_world None) example_pidfile 5) = None \<and>
   Read (snd (Write (example_world None) example_pidfile 5)) example_pidfile = (7, None)"
  by (simp add: Write_def Read_def eval_world eval_text eval_errors)

text \<open>
  C2, at \<open>Lock 5\<close> by the process 7 with no pidfile. \<open>Holder\<close> reports no holder and
  \<open>Lock\<close> succeeds, but the record it leaves holds 7, not 5.
\<close>

theorem Lock_other_pid_writes_own:
  "\<exists>w'. Lock (example_world None) example_pidfile 5 = Some (None, w') \<and>
        files w' example_path = Some (''7'', 2000000000000)"
  by (simp add: Lock_def Write_def Holder_def ReadWithMtime_def Read_def
        eval_world eval_text eval_errors)

text \<open>
  C4: whenever \<open>Holder\<close> reports a holder other than 0, the caller's own pid included,
  \<open>Lock\<close> returns \<^verbatim>\<open>os.ErrExist\<close> and leaves the world, so the pidfile, as it was.
\<close>

theorem Lock_held_fails:
  assumes "Holder w p = Some (holder, None)" and "holder \<noteq> 0"
  shows "Lock w p pid = Some (Some ErrExist, w)"
  using assms by (simp add: Lock_def Let_def)

theorem Lock_held_fails_witness:
  "Holder (example_world (Some (''7'', 1500000000000))) example_pidfile = Some (7, None) \<and>
   (7 :: Pid) \<noteq> 0 \<and>
   Lock (example_world (Some (''7'', 1500000000000))) example_pidfile 0 =
     Some (Some ErrExist, example_world (Some (''7'', 1500000000000)))"
proof -
  have h: "Holder (example_world (Some (''7'', 1500000000000))) example_pidfile
             = Some (7, None)"
    by (rule Holder_example_7)
  have n: "(7 :: Pid) \<noteq> 0" by simp
  from Lock_held_fails [OF h n] h n show ?thesis by simp
qed

section \<open>Unlock\<close>

text \<open>
  C6: when the lock is valid and the recorded pid differs from the pid argument (the
  caller's own id for 0), \<open>Unlock\<close> returns the error whose text names the recorded pid
  and then the requested one, and leaves the world, so the pidfile, as it was.
\<close>

theorem Unlock_not_owner:
  assumes "ReadWithMtime w p = (lockPid, lockMtime, None)"
    and "lockValid w lockPid lockMtime = (True, None)"
    and "caller = (if pid = 0 then ucast (Getpid w) else pid)"
    and "lockPid \<noteq> caller"
  shows "Unlock w p pid =
           Some (Some (errorString (''pidfile is held by '' @ fmt_d (sint lockPid)
                         @ ''; lock cannot be released by '' @ fmt_d (sint caller))), w) \<and>
         files w (path p) \<noteq> None"
  using assms ReadWithMtime_ok_file [of w p lockPid lockMtime]
  by (auto simp: Unlock_def Let_def)

theorem Unlock_not_owner_witness:
  "Unlock (example_world (Some (''1'', 1500000000000))) example_pidfile 0 =
     Some (Some (errorString ''pidfile is held by 1; lock cannot be released by 7''),
           example_world (Some (''1'', 1500000000000))) \<and>
   files (example_world (Some (''1'', 1500000000000))) (path example_pidfile) \<noteq> None"
proof -
  let ?w = "example_world (Some (''1'', 1500000000000))"
  have r: "ReadWithMtime ?w example_pidfile = (1, 1500000000000, None)"
    by (rule ReadWithMtime_example_1)
  have v: "lockValid ?w 1 1500000000000 = (True, None)"
    by (simp add: lockValid_example_1)
  have c: "(7 :: Pid) = (if (0 :: Pid) = 0 then ucast (Getpid ?w) else 0)"
    by (simp add: eval_world)
  have n: "(1 :: Pid) \<noteq> 7" by simp
  from Unlock_not_owner [OF r v c n] show ?thesis by (simp add: eval_text)
qed

text \<open>
  C7: when the lock is valid and the recorded pid is the pid argument (the caller's own id
  for 0), \<open>Unlock\<close> removes the pidfile and returns no error; when \<^verbatim>\<open>os.Remove\<close> fails,
  the failure is returned wrapped, the world is left as it was, and \<open>Holder\<close> still
  reports the recorded pid.
\<close>

theorem Unlock_owner:
  assumes "ReadWithMtime w p = (lockPid, lockMtime, None)"
    and "lockValid w lockPid lockMtime = (True, None)"
    and "lockPid = (if pid = 0 then ucast (Getpid w) else pid)"
  shows "(remove_fault w = None \<longrightarrow>
            Unlock w p pid = Some (None, w\<lparr>files := (files w)(path p := None)\<rparr>)) \<and>
         (\<forall>e. remove_fault w = Some e \<longrightarrow>
            Unlock w p pid =
              Some (Some (withMessage (PathError ''remove'' (path p) e)
                            ''failed to remove pidfile''), w) \<and>
            Holder w p = Some (lockPid, None))"
  using assms ReadWithMtime_ok_file [of w p lockPid lockMtime]
  by (auto simp: Unlock_def Let_def Remove_def Wrap_def Holder_read_ok)

theorem Unlock_owner_witness:
  "Unlock (example_world (Some (''7'', 1500000000000))) example_pidfile 7 =
     Some (None, example_world None) \<and>
   Unlock (example_world (Some (''7'', 1500000000000))\<lparr>remove_fault := Some (Errno EACCES)\<rparr>)
       example_pidfile 0 =
     Some (Some (withMessage (PathError ''remove'' example_path (Errno EACCES))
                   ''failed to remove pidfile''),
           example_world (Some (''7'', 1500000000000))\<lparr>remove_fault := Some (Errno EACCES)\<rparr>) \<and>
   Holder (example_world (Some (''7'', 1500000000000))\<lparr>remove_fault := Some (Errno EACCES)\<rparr>)
       example_pidfile = Some (7, None)"
proof -
  let ?w = "example_world (Some (''7'', 1500000000000))"
  let ?f = "?w\<lparr>remove_fault := Some (Errno EACCES)\<rparr>"
  have r: "ReadWithMtime ?w example_pidfile = (7, 1500000000000, None)"
    by (rule ReadWithMtime_example_7)
  have v: "lockValid ?w 7 1500000000000 = (True, None)"
    by (simp add: lockValid_example_7)
  have c: "(7 :: Pid) = (if (7 :: Pid) = 0 then ucast (Getpid ?w) else 7)" by simp
  have rf: "ReadWithMtime ?f example_pidfile = (7, 1500000000000, None)"
    by (simp add: ReadWithMtime_def Read_def eval_world eval_text eval_errors)
  have vf: "lockValid ?f 7 1500000000000 = (True, None)"
    by (simp add: lockValid_def Unix_def Before_def signed_divide_int_def eval_world)
  have cf: "(7 :: Pid) = (if (0 :: Pid) = 0 then ucast (Getpid ?f) else 0)"
    by (simp add: eval_world)
  have w': "?w\<lparr>files := (files ?w)(path example_pidfile := None)\<rparr> = example_world None"
    by (auto simp: eval_world)
  from Unlock_owner [OF r v c] Unlock_owner [OF rf vf cf] w'
  show ?thesis by (simp add: eval_world)
qed


section \<open>The validity comparison\<close>

text \<open>
  C10: for a process that exists and whose creation time (in milliseconds) is known,
  \<open>lockValid\<close> compares with the pidfile's mtime the creation time cut down to whole
  seconds: the millisecond value divided by 1000, the remainder discarded. So when the
  process was created in the very second of the mtime, the lock is judged valid exactly
  when the mtime lies after the start of that second, also when the process was created
  after the mtime.
\<close>

theorem lockValid_truncates_creation_time:
  assumes "NewProcess w pid = Inr info" and "CreateTime info = Inr ms"
  shows "lockValid w pid mtime = (Before (Unix (sint ms sdiv 1000) 0) mtime, None) \<and>
         Unix (sint ms sdiv 1000) 0 = (sint ms - sint ms smod 1000) * 1000000 \<and>
         (0 \<le> sint ms \<and> sint ms div 1000 = mtime div 1000000000 \<longrightarrow>
            (lockValid w pid mtime = (True, None)) = (mtime mod 1000000000 \<noteq> 0))"
proof (intro conjI impI)
  show lv: "lockValid w pid mtime = (Before (Unix (sint ms sdiv 1000) 0) mtime, None)"
    using assms by (simp add: lockValid_def)
  have "sint ms - sint ms smod 1000 = sint ms sdiv 1000 * 1000"
    by (rule minus_smod_eq_sdiv_mult)
  then show "Unix (sint ms sdiv 1000) 0 = (sint ms - sint ms smod 1000) * 1000000"
    by (simp add: Unix_def)
  assume a: "0 \<le> sint ms \<and> sint ms div 1000 = mtime div 1000000000"
  then have "sint ms sdiv 1000 = sint ms div 1000"
    by (cases "sint ms = 0") (simp_all add: signed_divide_int_def sgn_if)
  with a have sd: "sint ms sdiv 1000 = mtime div 1000000000" by simp
  have m: "mtime = mtime div 1000000000 * 1000000000 + mtime mod 1000000000"
    by simp
  have nn: "0 \<le> mtime mod 1000000000" by simp
  have "(mtime div 1000000000 * 1000000000 < mtime) = (mtime mod 1000000000 \<noteq> 0)"
    using m nn by linarith
  then show "(lockValid w pid mtime = (True, None)) = (mtime mod 1000000000 \<noteq> 0)"
    unfolding lv by (simp add: sd Unix_def Before_def)
qed

theorem lockValid_truncates_creation_time_witness:
  "lockValid (example_world None) 7 1000300000000 = (True, None) \<and>
   (1000300000000 :: int) < sint (1000500 :: int64) * 1000000 \<and>
   sint (1000500 :: int64) div 1000 = (1000300000000 :: int) div 1000000000"
proof -
  have p: "NewProcess (example_world None) 7 = Inr (Process (Inr 1000500))"
    by (simp add: eval_world)
  have c: "CreateTime (Process (Inr (1000500 :: int64))) = Inr 1000500" by simp
  have s: "0 \<le> sint (1000500 :: int64) \<and>
           sint (1000500 :: int64) div 1000 = (1000300000000 :: int) div 1000000000"
    by simp
  from lockValid_truncates_creation_time [OF p c, of 1000300000000] s
  show ?thesis by (simp add: Before_def)
qed

section \<open>Parsing the content\<close>

lemma foldl_digit_step_ge: "n \<le> foldl digit_step n cs"
proof (induction cs arbitrary: n)
  case Nil
  show ?case by simp
next
  case (Cons c cs)
  have "n \<le> digit_step n c" by (simp add: digit_step_def)
  also have "\<dots> \<le> foldl digit_step (digit_step n c) cs" by (rule Cons.IH)
  finally show ?case by simp
qed

lemma ParseUint_loop_digits:
  "list_all isDigit cs \<Longrightarrow> n \<le> maxUint64 \<Longrightarrow>
     ParseUint_loop cs n =
       (if foldl digit_step n cs \<le> maxUint64 then (foldl digit_step n cs, None)
        else (maxUint64, Some ErrRange))"
proof (induction cs arbitrary: n)
  case Nil
  then show ?case by simp
next
  case (Cons c cs)
  from Cons.prems have dc: "isDigit c" and dcs: "list_all isDigit cs" by simp_all
  define m where "m = digit_step n c"
  have unf: "ParseUint_loop (c # cs) n =
       (if n \<ge> maxUint64 div 10 + 1 then (maxUint64, Some ErrRange)
        else if m > maxUint64 then (maxUint64, Some ErrRange)
        else ParseUint_loop cs m)"
    unfolding m_def digit_step_def using dc
    by (simp only: ParseUint_loop.simps simp_thms if_False)
  have step: "foldl digit_step n (c # cs) = foldl digit_step m cs"
    by (simp add: m_def)
  have ge: "m \<le> foldl digit_step m cs" by (rule foldl_digit_step_ge)
  have big: "n \<ge> maxUint64 div 10 + 1 \<Longrightarrow> m > maxUint64"
    by (simp add: m_def digit_step_def maxUint64_def)
  show ?case
  proof (cases "n \<ge> maxUint64 div 10 + 1")
    case True
    with big ge have "foldl digit_step m cs > maxUint64" by simp
    with True show ?thesis unfolding unf step by simp
  next
    case small: False
    show ?thesis
    proof (cases "m > maxUint64")
      case True
      with ge have "foldl digit_step m cs > maxUint64" by simp
      with True small show ?thesis unfolding unf step by simp
    next
      case False
      then have "m \<le> maxUint64" by simp
      from Cons.IH [OF dcs this] False small show ?thesis unfolding unf step by simp
    qed
  qed
qed

lemma ParseUint_digits:
  "cs \<noteq> [] \<Longrightarrow> list_all isDigit cs \<Longrightarrow>
     ParseUint cs =
       (if digits_value cs \<le> maxUint64 then (digits_value cs, None)
        else (maxUint64, Some ErrRange))"
  by (simp add: ParseUint_def digits_value_def ParseUint_loop_digits)

lemma ParseUint_loop_not_digits:
  "\<not> list_all isDigit cs \<Longrightarrow>
     snd (ParseUint_loop cs n) = Some ErrSyntax \<or>
     ParseUint_loop cs n = (maxUint64, Some ErrRange)"
  by (induction cs arbitrary: n) auto

lemma ParseUint_not_digits:
  "cs = [] \<or> \<not> list_all isDigit cs \<Longrightarrow>
     snd (ParseUint cs) = Some ErrSyntax \<or> ParseUint cs = (maxUint64, Some ErrRange)"
  by (cases "cs = []") (simp_all add: ParseUint_def ParseUint_loop_not_digits)

lemma isDigit_sign: "\<not> isDigit CHR ''+''" "\<not> isDigit CHR ''-''"
  by (simp_all add: isDigit_def)

text \<open>The text that \<open>ParseInt\<close> hands to \<open>ParseUint\<close>, and the sign it keeps.\<close>

lemma ParseInt_unfold:
  "s \<noteq> [] \<Longrightarrow>
     ParseInt s =
       (case ParseUint (if hd s = CHR ''+'' \<or> hd s = CHR ''-'' then tl s else s) of
          (un, e) \<Rightarrow>
            if e \<noteq> None \<and> e \<noteq> Some ErrRange then (0, e)
            else if hd s \<noteq> CHR ''-'' \<and> un \<ge> 2 ^ 63
              then (word_of_nat (2 ^ 63 - 1), Some ErrRange)
            else if hd s = CHR ''-'' \<and> un > 2 ^ 63
              then (- word_of_nat (2 ^ 63), Some ErrRange)
            else (if hd s = CHR ''-'' then - word_of_nat un else word_of_nat un, None))"
  by (simp add: ParseInt_def Let_def)

lemma is_decimal_body:
  assumes "is_decimal s"
  defines "b \<equiv> (if hd s = CHR ''+'' \<or> hd s = CHR ''-'' then tl s else s)"
  shows "s \<noteq> []" and "b \<noteq> []" and "list_all isDigit b"
    and "decimal_value s = (if hd s = CHR ''-'' then - int (digits_value b)
                            else int (digits_value b))"
  using assms
  by (auto simp: is_decimal_def decimal_value_def split: list.splits if_splits)

lemma ParseInt_decimal:
  assumes d: "is_decimal s"
  shows "ParseInt s =
           (if decimal_value s < - (2 ^ 63) then (- word_of_nat (2 ^ 63), Some ErrRange)
            else if 2 ^ 63 \<le> decimal_value s then (word_of_nat (2 ^ 63 - 1), Some ErrRange)
            else (word_of_int (decimal_value s), None))"
proof -
  define b where "b = (if hd s = CHR ''+'' \<or> hd s = CHR ''-'' then tl s else s)"
  define un where "un = digits_value b"
  from is_decimal_body [OF d] have ne: "s \<noteq> []" and bne: "b \<noteq> []"
    and bd: "list_all isDigit b"
    and dv: "decimal_value s = (if hd s = CHR ''-'' then - int un else int un)"
    by (simp_all add: b_def un_def)
  have pu: "ParseUint b =
      (if un \<le> maxUint64 then (un, None) else (maxUint64, Some ErrRange))"
    unfolding un_def by (rule ParseUint_digits [OF bne bd])
  have pi: "ParseInt s =
       (case ParseUint b of
          (un, e) \<Rightarrow>
            if e \<noteq> None \<and> e \<noteq> Some ErrRange then (0, e)
            else if hd s \<noteq> CHR ''-'' \<and> un \<ge> 2 ^ 63
              then (word_of_nat (2 ^ 63 - 1), Some ErrRange)
            else if hd s = CHR ''-'' \<and> un > 2 ^ 63
              then (- word_of_nat (2 ^ 63), Some ErrRange)
            else (if hd s = CHR ''-'' then - word_of_nat un else word_of_nat un, None))"
    unfolding b_def by (rule ParseInt_unfold [OF ne])
  show ?thesis
  proof (cases "un \<le> maxUint64")
    case True
    show ?thesis
    proof (cases "hd s = CHR ''-''")
      case True
      with \<open>un \<le> maxUint64\<close> show ?thesis
        unfolding pi pu dv by (auto simp: maxUint64_def)
    next
      case False
      with \<open>un \<le> maxUint64\<close> show ?thesis
        unfolding pi pu dv by (auto simp: maxUint64_def)
    qed
  next
    case False
    then have big: "(2 :: nat) ^ 63 < un" by (simp add: maxUint64_def)
    show ?thesis
    proof (cases "hd s = CHR ''-''")
      case True
      with False big show ?thesis unfolding pi pu dv by (auto simp: maxUint64_def)
    next
      case nf: False
      with False big show ?thesis unfolding pi pu dv by (auto simp: maxUint64_def)
    qed
  qed
qed

lemma ParseInt_not_decimal:
  assumes nd: "\<not> is_decimal s"
  shows "snd (ParseInt s) = Some ErrSyntax \<or> snd (ParseInt s) = Some ErrRange"
proof (cases "s = []")
  case True
  then show ?thesis by (simp add: ParseInt_def)
next
  case ne: False
  define b where "b = (if hd s = CHR ''+'' \<or> hd s = CHR ''-'' then tl s else s)"
  from nd ne have "b = [] \<or> \<not> list_all isDigit b"
    by (cases s) (auto simp: is_decimal_def b_def isDigit_sign split: if_splits)
  then have "snd (ParseUint b) = Some ErrSyntax \<or> ParseUint b = (maxUint64, Some ErrRange)"
    by (rule ParseUint_not_digits)
  then show ?thesis
    unfolding ParseInt_unfold [OF ne] b_def [symmetric]
    by (cases "ParseUint b") (auto simp: maxUint64_def)
qed

lemma Atoi_decimal:
  "is_decimal s \<Longrightarrow> - (2 ^ 63) \<le> decimal_value s \<Longrightarrow> decimal_value s < 2 ^ 63 \<Longrightarrow>
     Atoi s = (word_of_int (decimal_value s), None)"
  by (simp add: Atoi_def ParseInt_decimal)

lemma Atoi_decimal_range:
  "is_decimal s \<Longrightarrow> decimal_value s < - (2 ^ 63) \<or> 2 ^ 63 \<le> decimal_value s \<Longrightarrow>
     snd (Atoi s) = Some (NumError ''Atoi'' s ErrRange)"
  by (auto simp: Atoi_def ParseInt_decimal)

lemma Atoi_not_decimal:
  "\<not> is_decimal s \<Longrightarrow>
     snd (Atoi s) = Some (NumError ''Atoi'' s ErrSyntax) \<or>
     snd (Atoi s) = Some (NumError ''Atoi'' s ErrRange)"
  using ParseInt_not_decimal [of s]
  by (cases "ParseInt s") (auto simp: Atoi_def)

lemma Read_present:
  "read_fault w = None \<Longrightarrow> files w (path p) = Some (d, mt) \<Longrightarrow>
     Read w p =
       (case Atoi (TrimSpace d) of (pid, e) \<Rightarrow>
          if e \<noteq> None then (0, Wrap e (''failed to parse pid from pidfile: '' @ path p))
          else (ucast pid, None))"
  by (simp add: Read_def ReadFile_def)

lemma Pid_of_int: "(ucast (word_of_int v :: go_int) :: Pid) = word_of_int v"
  by (rule bit_word_eqI) (auto simp: bit_simps)

lemma Read_decimal:
  assumes "read_fault w = None" and "files w (path p) = Some (d, mt)"
    and "is_decimal (TrimSpace d)"
    and "- (2 ^ 63) \<le> decimal_value (TrimSpace d)" and "decimal_value (TrimSpace d) < 2 ^ 63"
  shows "Read w p = (word_of_int (decimal_value (TrimSpace d)), None)"
  using assms by (simp add: Read_present Atoi_decimal Pid_of_int)

lemma Read_malformed:
  assumes "read_fault w = None" and "files w (path p) = Some (d, mt)"
    and "\<not> is_decimal (TrimSpace d) \<or> decimal_value (TrimSpace d) < - (2 ^ 63)
         \<or> 2 ^ 63 \<le> decimal_value (TrimSpace d)"
  shows "Malformed_class (snd (Read w p))"
proof -
  have "\<exists>k. snd (Atoi (TrimSpace d)) = Some (NumError ''Atoi'' (TrimSpace d) k)"
    using assms(3) Atoi_not_decimal [of "TrimSpace d"] Atoi_decimal_range [of "TrimSpace d"]
    by blast
  then show ?thesis
    using assms(1,2)
    by (cases "Atoi (TrimSpace d)")
       (auto simp: Read_present Wrap_def Malformed_class_def Cause_def)
qed

lemma sint_Pid_of_int:
  "sint (word_of_int v :: Pid) = (v + 2 ^ 31) mod 2 ^ 32 - 2 ^ 31"
  by (simp add: sint_sbintrunc' signed_take_bit_eq_take_bit_shift take_bit_eq_mod)

lemma sint_Pid_of_int_self:
  "- (2 ^ 31) \<le> v \<Longrightarrow> v < 2 ^ 31 \<Longrightarrow> sint (word_of_int v :: Pid) = v"
  by (simp add: sint_sbintrunc' signed_take_bit_int_eq_self)

lemma sint_Pid_of_int_other:
  "v < - (2 ^ 31) \<or> 2 ^ 31 \<le> v \<Longrightarrow> sint (word_of_int v :: Pid) \<noteq> v"
  using sint_range_size [of "word_of_int v :: Pid"] by (auto simp: word_size)

lemmas eval_decimal =
  is_decimal_def decimal_value_def digits_value_def digit_step_def

lemma example_world_file:
  "read_fault (example_world f) = None"
  "files (example_world f) (path example_pidfile) = f"
  by (simp_all add: eval_world)

section \<open>Read\<close>

text \<open>
  C8 as the claim states it, at the content \<^verbatim>\<open>4294967297\<close>: the content is a signed decimal
  integer, and \<open>Read\<close> returns 1 without error, which is not the integer parsed.
\<close>

theorem Read_not_the_parsed_integer:
  "is_decimal (TrimSpace ''4294967297'') \<and>
   decimal_value (TrimSpace ''4294967297'') = 4294967297 \<and>
   Read (example_world (Some (''4294967297'', 1500000000000))) example_pidfile = (1, None) \<and>
   sint (1 :: Pid) \<noteq> 4294967297"
  by (simp add: Read_def eval_world eval_text eval_errors eval_decimal)

text \<open>
  C8, amended. With no other failure of the read: \<open>Read\<close> fails with an error of the
  "not found" class when the file does not exist; it fails with an error of the "malformed
  content" class when the trimmed content is empty, is not an optional sign and decimal
  digits, or denotes an integer outside the signed 64-bit range of \<^verbatim>\<open>int\<close>; otherwise it
  returns the parsed integer converted to the 32-bit \<open>Pid\<close>, which is that integer when
  it lies in the signed 32-bit range.
\<close>

theorem Read_result:
  assumes "read_fault w = None"
  shows "(files w (path p) = None \<longrightarrow>
            fst (Read w p) = 0 \<and> NotFound_class (snd (Read w p))) \<and>
         (\<forall>d mt. files w (path p) = Some (d, mt) \<longrightarrow>
            (\<not> is_decimal (TrimSpace d) \<or> decimal_value (TrimSpace d) < - (2 ^ 63)
               \<or> 2 ^ 63 \<le> decimal_value (TrimSpace d) \<longrightarrow>
                 Malformed_class (snd (Read w p))) \<and>
            (is_decimal (TrimSpace d) \<and> - (2 ^ 63) \<le> decimal_value (TrimSpace d)
               \<and> decimal_value (TrimSpace d) < 2 ^ 63 \<longrightarrow>
                 Read w p = (word_of_int (decimal_value (TrimSpace d)), None)) \<and>
            (is_decimal (TrimSpace d) \<and> - (2 ^ 31) \<le> decimal_value (TrimSpace d)
               \<and> decimal_value (TrimSpace d) < 2 ^ 31 \<longrightarrow>
                 snd (Read w p) = None \<and> sint (fst (Read w p)) = decimal_value (TrimSpace d)))"
proof (intro conjI allI impI)
  assume "files w (path p) = None"
  with assms have r: "Read w p =
      (0, Some (withMessage (PathError ''open'' (path p) (Errno ENOENT))
                  (''failed to read pidfile: '' @ path p)))"
    by (rule Read_absent)
  show "fst (Read w p) = 0" by (simp add: r)
  show "NotFound_class (snd (Read w p))"
    by (simp add: r NotFound_class_def Cause_def IsNotExist_def)
next
  fix d mt
  assume f: "files w (path p) = Some (d, mt)"
  {
    assume "\<not> is_decimal (TrimSpace d) \<or> decimal_value (TrimSpace d) < - (2 ^ 63)
              \<or> 2 ^ 63 \<le> decimal_value (TrimSpace d)"
    with assms f show "Malformed_class (snd (Read w p))" by (rule Read_malformed)
  }
  {
    assume "is_decimal (TrimSpace d) \<and> - (2 ^ 63) \<le> decimal_value (TrimSpace d)
              \<and> decimal_value (TrimSpace d) < 2 ^ 63"
    with assms f show "Read w p = (word_of_int (decimal_value (TrimSpace d)), None)"
      by (simp add: Read_decimal)
  }
  {
    assume a: "is_decimal (TrimSpace d) \<and> - (2 ^ 31) \<le> decimal_value (TrimSpace d)
              \<and> decimal_value (TrimSpace d) < 2 ^ 31"
    then have "- (2 ^ 63) \<le> decimal_value (TrimSpace d)"
      and "decimal_value (TrimSpace d) < 2 ^ 63" by simp_all
    with assms f a have r: "Read w p = (word_of_int (decimal_value (TrimSpace d)), None)"
      by (simp add: Read_decimal)
    show "snd (Read w p) = None" by (simp add: r)
    from a show "sint (fst (Read w p)) = decimal_value (TrimSpace d)"
      by (simp add: r sint_Pid_of_int_self)
  }
qed

theorem Read_result_witness:
  "NotFound_class (snd (Read (example_world None) example_pidfile)) \<and>
   Malformed_class (snd (Read (example_world (Some (''   '', 0))) example_pidfile)) \<and>
   Malformed_class (snd (Read (example_world (Some (''12a'', 0))) example_pidfile)) \<and>
   Malformed_class
     (snd (Read (example_world (Some (''9223372036854775808'', 0))) example_pidfile)) \<and>
   Read (example_world (Some (''4294967297'', 0))) example_pidfile = (1, None) \<and>
   Read (example_world (Some ('' 42\<newline>'', 0))) example_pidfile = (42, None) \<and>
   sint (fst (Read (example_world (Some ('' 42\<newline>'', 0))) example_pidfile)) = 42"
proof -
  have t: "TrimSpace ''   '' = []" "TrimSpace ''12a'' = ''12a''"
    "TrimSpace ''9223372036854775808'' = ''9223372036854775808''"
    "TrimSpace ''4294967297'' = ''4294967297''" "TrimSpace '' 42\<newline>'' = ''42''"
    by (simp_all add: eval_text)
  have d: "\<not> is_decimal []" "\<not> is_decimal ''12a''"
    "is_decimal ''9223372036854775808''" "is_decimal ''4294967297''" "is_decimal ''42''"
    by (simp_all add: eval_decimal isDigit_def)
  have v: "decimal_value ''9223372036854775808'' = 9223372036854775808"
    "decimal_value ''4294967297'' = 4294967297" "decimal_value ''42'' = 42"
    by (simp_all add: eval_decimal)
  note r = Read_result [OF example_world_file(1), of _ example_pidfile,
      unfolded example_world_file(2)]
  from r [of None] r [of "Some (''   '', 0)"] r [of "Some (''12a'', 0)"]
    r [of "Some (''9223372036854775808'', 0)"] r [of "Some (''4294967297'', 0)"]
    r [of "Some ('' 42\<newline>'', 0)"]
  show ?thesis by (simp add: t d v)
qed

text \<open>
  C9: \<open>Read\<close> checks no 32-bit range. Whenever the trimmed content is a signed decimal
  integer \<open>v\<close> in the 64-bit range of \<^verbatim>\<open>int\<close>, \<open>Read\<close> returns without error the
  \<open>Pid\<close> whose value is \<open>v\<close> cut down modulo \<open>2 ^ 32\<close> to the signed 32-bit range: a
  different number when \<open>v\<close> is outside that range (a negative one for \<^verbatim>\<open>2147483648\<close>),
  and \<open>v\<close> itself, negative, for a negative \<open>v\<close> inside it.
\<close>

theorem Read_no_range_check:
  assumes "read_fault w = None" and "files w (path p) = Some (d, mt)"
    and "is_decimal (TrimSpace d)" and "v = decimal_value (TrimSpace d)"
    and "- (2 ^ 63) \<le> v" and "v < 2 ^ 63"
  shows "snd (Read w p) = None \<and>
         sint (fst (Read w p)) = (v + 2 ^ 31) mod 2 ^ 32 - 2 ^ 31 \<and>
         (v < - (2 ^ 31) \<or> 2 ^ 31 \<le> v \<longrightarrow> sint (fst (Read w p)) \<noteq> v) \<and>
         (- (2 ^ 31) \<le> v \<and> v < 0 \<longrightarrow> sint (fst (Read w p)) = v \<and> sint (fst (Read w p)) < 0)"
proof -
  from assms have r: "Read w p = (word_of_int v, None)"
    by (simp add: Read_decimal)
  have e: "snd (Read w p) = None" and f: "fst (Read w p) = word_of_int v"
    by (simp_all add: r)
  have m: "sint (fst (Read w p)) = (v + 2 ^ 31) mod 2 ^ 32 - 2 ^ 31"
    unfolding f by (rule sint_Pid_of_int)
  have o: "v < - (2 ^ 31) \<or> 2 ^ 31 \<le> v \<longrightarrow> sint (fst (Read w p)) \<noteq> v"
    unfolding f using sint_Pid_of_int_other [of v] by blast
  have n: "- (2 ^ 31) \<le> v \<and> v < 0 \<longrightarrow> sint (fst (Read w p)) = v \<and> sint (fst (Read w p)) < 0"
    unfolding f using sint_Pid_of_int_self [of v] by auto
  from e m o n show ?thesis by blast
qed

theorem Read_no_range_check_witness:
  "Read (example_world (Some (''2147483648'', 0))) example_pidfile = (- 2147483648, None) \<and>
   sint (fst (Read (example_world (Some (''2147483648'', 0))) example_pidfile))
     = - 2147483648 \<and>
   snd (Read (example_world (Some (''-5'', 0))) example_pidfile) = None \<and>
   sint (fst (Read (example_world (Some (''-5'', 0))) example_pidfile)) = - 5"
proof -
  let ?a = "example_world (Some (''2147483648'', 0))"
  let ?b = "example_world (Some (''-5'', 0))"
  have fa: "files ?a (path example_pidfile) = Some (''2147483648'', 0)"
    and fb: "files ?b (path example_pidfile) = Some (''-5'', 0)"
    by (simp_all add: example_world_file)
  have da: "is_decimal (TrimSpace ''2147483648'')" and db: "is_decimal (TrimSpace ''-5'')"
    by (simp_all add: eval_text eval_decimal)
  have va: "(2147483648 :: int) = decimal_value (TrimSpace ''2147483648'')"
    and vb: "(- 5 :: int) = decimal_value (TrimSpace ''-5'')"
    by (simp_all add: eval_text eval_decimal)
  have a: "snd (Read ?a example_pidfile) = None \<and>
           sint (fst (Read ?a example_pidfile)) = - 2147483648"
    using Read_no_range_check [OF example_world_file(1) fa da va] by simp
  have b: "snd (Read ?b example_pidfile) = None \<and> sint (fst (Read ?b example_pidfile)) = - 5"
    using Read_no_range_check [OF example_world_file(1) fb db vb] by simp
  have c: "Read ?a example_pidfile = (- 2147483648, None)"
    by (simp add: Read_def eval_world eval_text eval_errors)
  from a b c show ?thesis by simp
qed

section \<open>Unlock on an absent or stale pidfile\<close>









end
